theory Spec2Isabelle
  imports Main "HOL-Library.Sublist" "HOL-Library.AList"
begin

section \<open>The command-line front-end of OWTF (\<^verbatim>\<open>owtf/cli.py\<close>)\<close>

text \<open>
  The development embeds \<^verbatim>\<open>get_plugins_from_arg\<close>, \<^verbatim>\<open>process_options\<close> and
  \<^verbatim>\<open>main\<close> of \<^verbatim>\<open>src/owtf/cli.py\<close>. Python strings are \<open>string\<close>s (one \<open>char\<close> per code
  point, code points below 256), exceptions are values of the type \<open>exn\<close>, and every
  call that prints, logs or calls into another module of the framework appends an
  \<open>event\<close> to a trace that is threaded through the program.
\<close>

subsection \<open>Python string primitives used by the module\<close>

text \<open>
  \<^verbatim>\<open>s.split(sep)\<close> for a separator given explicitly: the leftmost, non-overlapping
  occurrences of \<open>sep\<close> cut the string; the result is never empty
  (\<^verbatim>\<open>''.split(',') == ['']\<close>). The module only splits on \<^verbatim>\<open>','\<close>, \<^verbatim>\<open>':'\<close>,
  \<^verbatim>\<open>'://'\<close> and the newline; Python rejects the empty separator, which is not
  recognised as an occurrence here.
\<close>

fun py_split :: "string \<Rightarrow> string \<Rightarrow> string list" where
  "py_split sep [] = [[]]"
| "py_split sep (c # cs) =
     (if sep \<noteq> [] \<and> prefix sep (c # cs)
      then [] # py_split sep (drop (length sep) (c # cs))
      else (let fields = py_split sep cs in (c # hd fields) # tl fields))"

text \<open>
  \<^verbatim>\<open>str.isspace\<close> on one character, for the code points below 256 (Python 3):
  tab, line feed, vertical tab, form feed, carriage return, the separators
  \<^verbatim>\<open>\x1c\<close> .. \<^verbatim>\<open>\x1f\<close>, the space, \<^verbatim>\<open>\x85\<close> and \<^verbatim>\<open>\xa0\<close>.
\<close>

definition py_isspace :: "char \<Rightarrow> bool" where
  "py_isspace c = (of_char c \<in> {9, 10, 11, 12, 13, 28, 29, 30, 31, 32, 133, 160 :: nat})"

text \<open>\<^verbatim>\<open>s.strip()\<close>: whitespace removed at both ends.\<close>

definition py_strip :: "string \<Rightarrow> string" where
  "py_strip s = rev (dropWhile py_isspace (rev (dropWhile py_isspace s)))"

definition is_digit :: "char \<Rightarrow> bool" where
  "is_digit c = (48 \<le> (of_char c :: nat) \<and> (of_char c :: nat) \<le> 57)"

definition digit_val :: "char \<Rightarrow> nat" where
  "digit_val c = of_char c - 48"

text \<open>
  The digit part of a decimal literal accepted by \<^verbatim>\<open>int\<close>: a digit, then digits
  each preceded by at most one underscore.
\<close>

fun int_digits :: "string \<Rightarrow> bool" where
  "int_digits [] = False"
| "int_digits [c] = is_digit c"
| "int_digits (c # d # r) =
     (is_digit c \<and> (if d = CHR ''_'' then int_digits r else int_digits (d # r)))"

text \<open>
  The whitespace that \<^verbatim>\<open>int\<close> drops around a literal is not that of \<^verbatim>\<open>strip\<close>: it is
  the whitespace of C (tab, line feed, vertical tab, form feed, carriage return, space)
  and the spaces beyond ASCII (\<^verbatim>\<open>\x85\<close> and \<^verbatim>\<open>\xa0\<close>, which \<^verbatim>\<open>int\<close> first turns into a
  space). The separators \<^verbatim>\<open>\x1c\<close> .. \<^verbatim>\<open>\x1f\<close> stay, and make the literal invalid.
\<close>

definition int_isspace :: "char \<Rightarrow> bool" where
  "int_isspace c = (of_char c \<in> {9, 10, 11, 12, 13, 32, 133, 160 :: nat})"

definition int_strip :: "string \<Rightarrow> string" where
  "int_strip s = rev (dropWhile int_isspace (rev (dropWhile int_isspace s)))"

text \<open>
  \<^verbatim>\<open>int(s)\<close> on a string, base 10: surrounding whitespace is dropped, one sign is
  allowed, then the digits. \<open>None\<close> stands for the \<^verbatim>\<open>ValueError\<close> that Python raises.
  (The bound that recent interpreters put on the number of digits is left out.)
\<close>

definition py_int :: "string \<Rightarrow> int option" where
  "py_int s =
     (let t = int_strip s;
          neg = (t \<noteq> [] \<and> hd t = CHR ''-'');
          u = (if t \<noteq> [] \<and> (hd t = CHR ''+'' \<or> hd t = CHR ''-'') then tl t else t)
      in if int_digits u
         then (let v = foldl (\<lambda>a c. 10 * a + int (digit_val c)) 0
                         (filter (\<lambda>c. c \<noteq> CHR ''_'') u)
               in Some (if neg then - v else v))
         else None)"

text \<open>
  \<^verbatim>\<open>template.format(*args)\<close>, for the replacement fields \<^verbatim>\<open>{}\<close> (the next
  argument) and \<^verbatim>\<open>{k}\<close> with one digit \<open>k\<close> (the argument of that index). Every other
  character is copied, the percent sign included: \<^verbatim>\<open>format\<close> knows no \<^verbatim>\<open>%s\<close>. The
  three templates of the module have no brace at all or the fields \<^verbatim>\<open>{0}\<close> and
  \<^verbatim>\<open>{1}\<close> with two arguments; where Python would raise (a field beyond the
  arguments, a single brace) the text is copied.
\<close>

fun py_format :: "string \<Rightarrow> string list \<Rightarrow> string list \<Rightarrow> string" where
  "py_format [] args rest = []"
| "py_format (c # t) args rest =
     (if c = CHR ''{'' \<and> take 1 t = ''}'' \<and> rest \<noteq> []
      then hd rest @ py_format (drop 1 t) args (tl rest)
      else if c = CHR ''{'' \<and> 2 \<le> length t \<and> t ! 1 = CHR ''}'' \<and> is_digit (t ! 0)
              \<and> digit_val (t ! 0) < length args
      then args ! digit_val (t ! 0) @ py_format (drop 2 t) args rest
      else c # py_format t args rest)"

definition str_format :: "string \<Rightarrow> string list \<Rightarrow> string" where
  "str_format template args = py_format template args args"

text \<open>\<^verbatim>\<open>template % value\<close> for a template with one \<^verbatim>\<open>%s\<close>.\<close>

fun percent_s :: "string \<Rightarrow> string \<Rightarrow> string" where
  "percent_s [] v = []"
| "percent_s (c # t) v =
     (if c = CHR ''%'' \<and> take 1 t = ''s'' then v @ drop 1 t else c # percent_s t v)"

text \<open>\<^verbatim>\<open>str(xs)\<close> of a list of strings without quotes or backslashes in them.\<close>

fun py_str_items :: "string list \<Rightarrow> string" where
  "py_str_items [] = []"
| "py_str_items [x] = [CHR 0x27] @ x @ [CHR 0x27]"
| "py_str_items (x # y # r) = [CHR 0x27] @ x @ [CHR 0x27] @ '', '' @ py_str_items (y # r)"

definition py_str_list :: "string list \<Rightarrow> string" where
  "py_str_list xs = ''['' @ py_str_items xs @ '']''"

subsection \<open>Values, exceptions and the data of the module\<close>

text \<open>
  The values the argument namespace and the returned dictionary hold, as far as the
  module looks at them: \<^verbatim>\<open>None\<close>, booleans, integers, strings and lists of strings.
\<close>

datatype pyval = PNone | PBool bool | PInt int | PStr string | PList "string list"

text \<open>Truth value of an object in a condition (\<^verbatim>\<open>if x:\<close>, \<^verbatim>\<open>not x\<close>, \<^verbatim>\<open>x or y\<close>).\<close>

fun truthy :: "pyval \<Rightarrow> bool" where
  "truthy PNone = False"
| "truthy (PBool b) = b"
| "truthy (PInt i) = (i \<noteq> 0)"
| "truthy (PStr s) = (s \<noteq> [])"
| "truthy (PList xs) = (xs \<noteq> [])"

text \<open>An option of the command line that is a string when given and \<^verbatim>\<open>None\<close> otherwise.\<close>

definition opt_val :: "string option \<Rightarrow> pyval" where
  "opt_val x = (case x of None \<Rightarrow> PNone | Some s \<Rightarrow> PStr s)"

definition given :: "string option \<Rightarrow> bool" where
  "given x = truthy (opt_val x)"

text \<open>
  The exceptions that leave a function of the module. \<open>UsageError msg\<close> is the
  termination by \<^verbatim>\<open>usage(msg)\<close>; \<open>SystemExit n\<close> is \<^verbatim>\<open>exit(n)\<close> and \<^verbatim>\<open>sys.exit(n)\<close>.
\<close>

datatype exn =
    UsageError string
  | SystemExit int
  | KeyboardInterrupt string
  | DatabaseNotRunning
  | IndexError
  | IOError
  | OtherError string

text \<open>The namespace \<^verbatim>\<open>arg\<close> that \<^verbatim>\<open>parse_options\<close> returns (field \<^verbatim>\<open>arg.X\<close> is \<open>arg_X\<close>).\<close>

record arguments =
  arg_PluginGroup :: pyval
  arg_PluginType :: pyval
  arg_CustomProfile :: "string option"
  arg_OnlyPlugins :: "string option"
  arg_ExceptPlugins :: "string option"
  arg_TOR_mode :: "string option"
  arg_OutboundProxy :: "string option"
  arg_InboundProxy :: "string option"
  arg_Targets :: "string list option"
  arg_list_plugins :: pyval
  arg_ForceOverwrite :: pyval
  arg_Interactive :: pyval
  arg_Simulation :: pyval
  arg_OutboundProxyAuth :: pyval
  arg_RPort :: pyval
  arg_PortWaves :: pyval
  arg_ProxyMode :: pyval
  arg_nowebui :: pyval

text \<open>The dictionary that \<^verbatim>\<open>process_options\<close> returns, one field for each key.\<close>

record resolved_configuration =
  list_plugins :: pyval
  Force_Overwrite :: pyval
  Interactive :: bool
  Simulation :: pyval
  Scope :: "string list"
  argv :: "string list"
  PluginType :: pyval
  OnlyPlugins :: pyval
  ExceptPlugins :: pyval
  InboundProxy :: pyval
  OutboundProxy :: pyval
  OutboundProxyAuth :: pyval
  Profiles :: "(string \<times> string) list"
  PluginGroup :: pyval
  RPort :: pyval
  PortWaves :: pyval
  ProxyMode :: pyval
  TOR_mode :: pyval
  nowebui :: pyval
  Args :: pyval

text \<open>The calls of the first \<^verbatim>\<open>try\<close> block of \<^verbatim>\<open>main\<close>, in the order of the source.\<close>

datatype init_call =
    EnsureDefaultSession
  | LoadFrameworkConfigFile string nat
  | LoadConfigDbFile
  | LoadResourcesFromFile
  | LoadMappingsFromFile
  | LoadTestGroups string
  | LoadPlugins

text \<open>What the program does to the outside, in the order in which it does it.\<close>

datatype event =
    Banner
  | Init init_call
  | LogInfo string
  | LogWarning string
  | MsgConfigureTor
  | PublishCliOptions resolved_configuration
  | CoreStart resolved_configuration
  | CoreFinish
  | CleanTempStorageDirs nat

text \<open>
  The collaborators of the module: the plugin registry, the option parser, the file
  system, the process and the scan engine. Their code is not part of the module; each is
  a parameter. \<open>open_read p\<close> is \<^verbatim>\<open>open(p).read()\<close>, \<open>None\<close> when it raises;
  \<open>script_dir p\<close> is \<^verbatim>\<open>os.path.dirname(os.path.abspath(p))\<close>; \<open>init_raises c\<close> is the
  exception that the initialisation call \<open>c\<close> raises, if any; \<open>core_start cfg\<close> is the
  result of \<^verbatim>\<open>core.start(cfg)\<close>; \<open>core_finish n\<close> is the exception raised by call
  number \<open>n\<close> of \<^verbatim>\<open>core.finish()\<close>, if any.
\<close>

record environment =
  get_all_plugin_groups :: "string list"
  get_all_plugin_types :: "string list"
  get_groups_for_plugins :: "string list \<Rightarrow> string list"
  get_types_for_plugin_group :: "pyval \<Rightarrow> string list"
  parse_options :: "string list \<Rightarrow> string list \<Rightarrow> string list \<Rightarrow> exn + arguments"
  path_exists :: "string \<Rightarrow> bool"
  path_isfile :: "string \<Rightarrow> bool"
  open_read :: "string \<Rightarrow> string option"
  sys_argv :: "string list"
  script_dir :: "string \<Rightarrow> string"
  getpid :: nat
  init_raises :: "init_call \<Rightarrow> exn option"
  core_start :: "resolved_configuration \<Rightarrow> exn + bool"
  core_finish :: "nat \<Rightarrow> exn option"
  owtf_version :: string
  owtf_release :: string

subsection \<open>Running code: a result or an exception, and the trace of events\<close>

type_synonym 'a run = "event list \<Rightarrow> (exn + 'a) \<times> event list"

definition ret :: "'a \<Rightarrow> 'a run" where
  "ret v = (\<lambda>t. (Inr v, t))"

definition raise :: "exn \<Rightarrow> 'a run" where
  "raise e = (\<lambda>t. (Inl e, t))"

definition emit :: "event \<Rightarrow> unit run" where
  "emit ev = (\<lambda>t. (Inr (), t @ [ev]))"

text \<open>Sequencing: an exception of the first part skips the second.\<close>

definition and_then :: "'a run \<Rightarrow> ('a \<Rightarrow> 'b run) \<Rightarrow> 'b run" where
  "and_then m f = (\<lambda>t. case m t of (Inl e, t') \<Rightarrow> (Inl e, t') | (Inr v, t') \<Rightarrow> f v t')"

definition then_run :: "unit run \<Rightarrow> 'b run \<Rightarrow> 'b run" where
  "then_run m k = and_then m (\<lambda>_. k)"

text \<open>
  \<^verbatim>\<open>try: body except ...: handler\<close>: the handler chooses the clause for the
  exception, \<open>None\<close> when no clause matches and the exception goes on.
\<close>

definition try_except :: "'a run \<Rightarrow> (exn \<Rightarrow> 'a run option) \<Rightarrow> 'a run" where
  "try_except body handler =
     (\<lambda>t. case body t of
            (Inr v, t') \<Rightarrow> (Inr v, t')
          | (Inl e, t') \<Rightarrow> (case handler e of None \<Rightarrow> (Inl e, t') | Some h \<Rightarrow> h t'))"

text \<open>
  \<^verbatim>\<open>try: body finally: cleanup\<close>: the cleanup runs however the body ends; the
  body's result or exception stands unless the cleanup raises itself.
\<close>

definition try_finally :: "'a run \<Rightarrow> unit run \<Rightarrow> 'a run" where
  "try_finally body cleanup =
     (\<lambda>t. case body t of
            (r, t') \<Rightarrow> (case cleanup t' of (Inl e, t'') \<Rightarrow> (Inl e, t'') | (Inr _, t'') \<Rightarrow> (r, t'')))"

text \<open>
  Modelled from the spec: \<^verbatim>\<open>usage\<close> of \<^verbatim>\<open>owtf.lib.cli_options\<close> is not among the
  sources. The specification has a usage error print the usage message and terminate the
  process with a failure status, so that no statement after the call runs.
\<close>

definition usage :: "string \<Rightarrow> 'a run" where
  "usage error_message = raise (UsageError error_message)"

text \<open>
  A run started on the empty trace gives the \<open>outcome\<close> of a piece of code and the
  \<open>events\<close> it causes. Code that \<open>appends\<close> never reads the trace: from any trace it has
  the same outcome and adds the same events.
\<close>

definition outcome :: "'a run \<Rightarrow> exn + 'a" where
  "outcome m = fst (m [])"

definition events :: "'a run \<Rightarrow> event list" where
  "events m = snd (m [])"

definition appends :: "'a run \<Rightarrow> bool" where
  "appends m = (\<forall>t. m t = (outcome m, t @ events m))"

subsection \<open>\<^verbatim>\<open>get_plugins_from_arg\<close> (lines 47 to 59)\<close>

definition get_plugins_from_arg :: "environment \<Rightarrow> string \<Rightarrow> (string list \<times> string list) run" where
  "get_plugins_from_arg env arg =
     (let plugins = py_split '','' arg;
          plugin_groups = get_groups_for_plugins env plugins
      in if length plugin_groups > 1
         then usage (str_format
                (''The plugins specified belong to several plugin groups: ''
                   @ [CHR 0x27] @ ''%s'' @ [CHR 0x27])
                [py_str_list plugin_groups])
         else ret (plugins, plugin_groups))"

subsection \<open>\<^verbatim>\<open>process_options\<close> (lines 62 to 210)\<close>

text \<open>
  Lines 70 to 76: the options are parsed by the collaborator. Only a
  \<^verbatim>\<open>KeyboardInterrupt\<close> is handled, by \<^verbatim>\<open>usage\<close> (the \<^verbatim>\<open>sys.exit(0)\<close> after it is never
  reached); any other exception leaves the function.
\<close>

definition parse_arguments :: "environment \<Rightarrow> string list \<Rightarrow> arguments run" where
  "parse_arguments env user_args =
     (let valid_groups = get_all_plugin_groups env;
          valid_types = get_all_plugin_types env @ [''all'', ''quiet'']
      in case parse_options env user_args valid_groups valid_types of
           Inr arg \<Rightarrow> ret arg
         | Inl (KeyboardInterrupt e) \<Rightarrow> usage (percent_s ''Invalid OWTF option(s) %s'' e)
         | Inl e \<Rightarrow> raise e)"

text \<open>
  Lines 84 to 89: the loop over the custom profiles. The dictionary \<^verbatim>\<open>profiles\<close>
  is an association list in insertion order; assigning to a key that is present
  replaces its value in place.
\<close>

fun custom_profiles_loop ::
  "environment \<Rightarrow> string list \<Rightarrow> (string \<times> string) list \<Rightarrow> (string \<times> string) list run" where
  "custom_profiles_loop env [] profiles = ret profiles"
| "custom_profiles_loop env (profile # others) profiles =
     (let chunks = py_split '':'' profile
      in if length chunks \<noteq> 2 \<or> \<not> path_exists env (chunks ! 1)
         then usage ''Invalid Profile''
         else custom_profiles_loop env others (AList.update (chunks ! 0) (chunks ! 1) profiles))"

text \<open>Lines 79 and 82 to 89.\<close>

definition custom_profiles :: "environment \<Rightarrow> arguments \<Rightarrow> (string \<times> string) list run" where
  "custom_profiles env arg =
     (case arg_CustomProfile arg of
        Some s \<Rightarrow> (if s \<noteq> [] then custom_profiles_loop env (py_split '','' s) [] else ret [])
      | None \<Rightarrow> ret [])"

text \<open>
  Lines 80 and 91 to 98: the value of \<^verbatim>\<open>arg.OnlyPlugins\<close> and of \<^verbatim>\<open>plugin_group\<close>
  after the block. \<^verbatim>\<open>plugin_groups[0]\<close> raises \<^verbatim>\<open>IndexError\<close> on the empty list, which
  the source turns into \<^verbatim>\<open>usage\<close>.
\<close>

definition only_plugins :: "environment \<Rightarrow> arguments \<Rightarrow> (pyval \<times> pyval) run" where
  "only_plugins env arg =
     (if given (arg_OnlyPlugins arg)
      then and_then (get_plugins_from_arg env (the (arg_OnlyPlugins arg)))
             (\<lambda>(plugins, plugin_groups).
                case plugin_groups of
                  [] \<Rightarrow> usage ''Please use either OWASP/OWTF codes or Plugin names''
                | plugin_group # _ \<Rightarrow>
                    then_run
                      (emit (LogInfo (percent_s
                         (''Defaulting Plugin Group to '' @ [CHR 0x27] @ ''%s'' @ [CHR 0x27]
                            @ '' based on list of plugins supplied'')
                         plugin_group)))
                      (ret (PList plugins, PStr plugin_group)))
      else ret (opt_val (arg_OnlyPlugins arg), arg_PluginGroup arg))"

text \<open>Lines 100 and 101: the groups of the excluded plugins are computed and dropped.\<close>

definition except_plugins :: "environment \<Rightarrow> arguments \<Rightarrow> pyval run" where
  "except_plugins env arg =
     (if given (arg_ExceptPlugins arg)
      then and_then (get_plugins_from_arg env (the (arg_ExceptPlugins arg)))
             (\<lambda>(plugins, plugin_groups). ret (PList plugins))
      else ret (opt_val (arg_ExceptPlugins arg)))"

text \<open>
  Lines 103 to 124: the values of \<^verbatim>\<open>arg.TOR_mode\<close> and of \<^verbatim>\<open>arg.OutboundProxy\<close>
  (still a string, if any) after the block. \<^verbatim>\<open>msg_configure_tor\<close> prints the guidance.
\<close>

definition tor_mode :: "arguments \<Rightarrow> (pyval \<times> string option) run" where
  "tor_mode arg =
     (if given (arg_TOR_mode arg)
      then (let tor = py_split '':'' (the (arg_TOR_mode arg))
            in if tor ! 0 = ''help''
               then then_run (emit MsgConfigureTor) (raise (SystemExit 0))
               else if length tor = 1
               then (if tor ! 0 \<noteq> ''help''
                     then usage ''Invalid argument for TOR-mode''
                     else ret (PList tor, arg_OutboundProxy arg))
               else if length tor \<noteq> 5
               then usage ''Invalid argument for TOR-mode''
               else (let outbound_proxy_ip = (if tor ! 0 = [] then ''127.0.0.1'' else tor ! 0);
                         outbound_proxy_port = (if tor ! 1 = [] then ''9050'' else tor ! 1)
                     in ret (PList tor,
                          Some (str_format ''socks://%s:%s''
                                  [outbound_proxy_ip, outbound_proxy_port]))))
      else ret (opt_val (arg_TOR_mode arg), arg_OutboundProxy arg))"

text \<open>
  Lines 126 to 141. In \<^verbatim>\<open>arg.OutboundProxy + arg.OutboundProxy.pop().split(':')\<close> the
  \<^verbatim>\<open>pop\<close> shortens the list that is the left operand before the two are joined: the
  result is the list without its last element, followed by the fields of that element.
\<close>

definition outbound_proxy :: "string option \<Rightarrow> pyval run" where
  "outbound_proxy outbound =
     (if given outbound
      then (let parts = py_split ''://'' (the outbound)
            in and_then
                 (if length parts = 2
                  then (let fields = butlast parts @ py_split '':'' (last parts)
                        in if fields ! 0 \<notin> set [''socks'', ''http'']
                           then usage ''Invalid argument for Outbound Proxy''
                           else ret fields)
                  else ret (py_split '':'' (last parts)))
                 (\<lambda>fields.
                    if length fields \<notin> set [2, 3]
                    then usage ''Invalid argument for Outbound Proxy''
                    else (case py_int (last fields) of
                            None \<Rightarrow> usage ''Invalid port provided for Outbound Proxy''
                          | Some port \<Rightarrow> ret (PList fields))))
      else ret (opt_val outbound))"

text \<open>Lines 143 to 152.\<close>

definition inbound_proxy :: "arguments \<Rightarrow> pyval run" where
  "inbound_proxy arg =
     (if given (arg_InboundProxy arg)
      then (let fields = py_split '':'' (the (arg_InboundProxy arg))
            in if length fields \<notin> set [1, 2]
               then usage ''Invalid argument for Inbound Proxy''
               else (case py_int (last fields) of
                       None \<Rightarrow> usage ''Invalid port for Inbound Proxy''
                     | Some port \<Rightarrow> ret (PList fields)))
      else ret (opt_val (arg_InboundProxy arg)))"

text \<open>Lines 154 to 158.\<close>

definition plugin_type :: "environment \<Rightarrow> arguments \<Rightarrow> pyval \<Rightarrow> pyval" where
  "plugin_type env arg plugin_group =
     (let plugin_types_for_group = get_types_for_plugin_group env plugin_group
      in if arg_PluginType arg = PStr ''all'' then PList plugin_types_for_group
         else if arg_PluginType arg = PStr ''quiet'' then PList [''passive'', ''semi_passive'']
         else arg_PluginType arg)"

text \<open>Lines 168 to 173: the loop over the lines of the scope file.\<close>

definition scope_file_targets :: "string \<Rightarrow> string list" where
  "scope_file_targets content =
     foldl (\<lambda>new_scope target.
              let CleanTarget = py_strip target
              in if CleanTarget = [] then new_scope else new_scope @ [CleanTarget])
       [] (py_split [CHR 0x0A] content)"

text \<open>
  Lines 160 to 176: the value of \<^verbatim>\<open>scope\<close> after the block. A file that
  \<^verbatim>\<open>os.path.isfile\<close> accepts and \<^verbatim>\<open>open\<close> cannot read raises \<^verbatim>\<open>IOError\<close>.
\<close>

definition resolve_scope :: "environment \<Rightarrow> arguments \<Rightarrow> pyval \<Rightarrow> string list run" where
  "resolve_scope env arg plugin_group =
     (let scope = (case arg_Targets arg of None \<Rightarrow> [] | Some ts \<Rightarrow> ts);
          num_targets = length scope
      in if plugin_group \<noteq> PStr ''auxiliary'' \<and> num_targets = 0 \<and> \<not> truthy (arg_list_plugins arg)
         then ret scope
         else if num_targets = 1
         then (if path_isfile env (scope ! 0)
               then then_run
                      (emit (LogInfo ''Scope file: trying to load targets from it ..''))
                      (case open_read env (scope ! 0) of
                         None \<Rightarrow> raise IOError
                       | Some content \<Rightarrow>
                           (let new_scope = scope_file_targets content
                            in if length new_scope = 0
                               then usage ''Please provide a scope file (1 target x line)''
                               else ret new_scope))
               else ret scope)
         else ret scope)"

text \<open>
  Lines 178 to 180: \<^verbatim>\<open>target[0]\<close> raises \<^verbatim>\<open>IndexError\<close> on the empty string; the
  loop stops at the first target that raises or is refused.
\<close>

fun check_targets :: "string list \<Rightarrow> unit run" where
  "check_targets [] = ret ()"
| "check_targets (target # others) =
     (if target = [] then raise IndexError
      else if target ! 0 = CHR ''-'' then usage (''Invalid Target: '' @ target)
      else check_targets others)"

text \<open>The whole function; lines 182 to 210 are its last step.\<close>

definition process_options :: "environment \<Rightarrow> string list \<Rightarrow> resolved_configuration run" where
  "process_options env user_args =
     and_then (parse_arguments env user_args) (\<lambda>arg.
     and_then (custom_profiles env arg) (\<lambda>profiles.
     and_then (only_plugins env arg) (\<lambda>(only, plugin_group).
     and_then (except_plugins env arg) (\<lambda>except.
     and_then (tor_mode arg) (\<lambda>(tor, outbound).
     and_then (outbound_proxy outbound) (\<lambda>outbound_fields.
     and_then (inbound_proxy arg) (\<lambda>inbound_fields.
     and_then (resolve_scope env arg plugin_group) (\<lambda>scope.
     and_then (check_targets scope) (\<lambda>_.
       ret \<lparr> list_plugins = arg_list_plugins arg,
             Force_Overwrite = arg_ForceOverwrite arg,
             Interactive = (arg_Interactive arg = PStr ''yes''),
             Simulation = arg_Simulation arg,
             Scope = (if plugin_group = PStr ''auxiliary'' then [''auxiliary''] else scope),
             argv = sys_argv env,
             PluginType = plugin_type env arg plugin_group,
             OnlyPlugins = only,
             ExceptPlugins = except,
             InboundProxy = inbound_fields,
             OutboundProxy = outbound_fields,
             OutboundProxyAuth = arg_OutboundProxyAuth arg,
             Profiles = profiles,
             PluginGroup = plugin_group,
             RPort = arg_RPort arg,
             PortWaves = arg_PortWaves arg,
             ProxyMode = arg_ProxyMode arg,
             TOR_mode = tor,
             nowebui = arg_nowebui arg,
             Args = (if plugin_group = PStr ''auxiliary'' then PList scope else PStr '''')
           \<rparr>)))))))))"

subsection \<open>\<^verbatim>\<open>main\<close> (lines 213 to 258)\<close>

text \<open>One call of the first \<^verbatim>\<open>try\<close> block: the call is made, and may raise.\<close>

definition init_step :: "environment \<Rightarrow> init_call \<Rightarrow> unit run" where
  "init_step env c =
     then_run (emit (Init c)) (case init_raises env c of None \<Rightarrow> ret () | Some e \<Rightarrow> raise e)"

fun init_steps :: "environment \<Rightarrow> init_call list \<Rightarrow> unit run" where
  "init_steps env [] = ret ()"
| "init_steps env (c # cs) = then_run (init_step env c) (init_steps env cs)"

text \<open>Lines 227 to 236, in the order of the source.\<close>

definition initialise :: "environment \<Rightarrow> string \<Rightarrow> nat \<Rightarrow> unit run" where
  "initialise env root_dir owtf_pid =
     init_steps env
       [EnsureDefaultSession,
        LoadFrameworkConfigFile root_dir owtf_pid,
        LoadConfigDbFile,
        LoadResourcesFromFile,
        LoadMappingsFromFile,
        LoadTestGroups ''web'',
        LoadTestGroups ''net'',
        LoadTestGroups ''aux'',
        LoadPlugins]"

text \<open>\<^verbatim>\<open>core.start(args)\<close> and \<^verbatim>\<open>core.finish()\<close>; the latter can be called twice.\<close>

definition engine_start :: "environment \<Rightarrow> resolved_configuration \<Rightarrow> bool run" where
  "engine_start env cfg =
     then_run (emit (CoreStart cfg))
       (case core_start env cfg of Inl e \<Rightarrow> raise e | Inr started \<Rightarrow> ret started)"

definition engine_finish :: "environment \<Rightarrow> unit run" where
  "engine_finish env =
     (\<lambda>t. let n = length (filter (\<lambda>ev. ev = CoreFinish) t)
          in then_run (emit CoreFinish)
               (case core_finish env n of None \<Rightarrow> ret () | Some e \<Rightarrow> raise e) t)"

text \<open>
  Lines 245 to 256, without the \<^verbatim>\<open>finally\<close> clause: the engine runs, and the two
  \<^verbatim>\<open>except\<close> clauses handle the interrupt and the exit.
\<close>

definition run_engine :: "environment \<Rightarrow> resolved_configuration \<Rightarrow> unit run" where
  "run_engine env cfg =
     try_except
       (and_then (engine_start env cfg)
          (\<lambda>started. if started then engine_finish env else ret ()))
       (\<lambda>e. case e of
               KeyboardInterrupt _ \<Rightarrow>
                 Some (then_run (emit (LogWarning ''OWTF was aborted by the user:''))
                        (then_run
                           (emit (LogInfo
                              ''Please check report/plugin output files for partial results''))
                           (engine_finish env)))
             | SystemExit _ \<Rightarrow> Some (ret ())
             | _ \<Rightarrow> None)"

text \<open>
  The whole function. \<^verbatim>\<open>args[0]\<close> raises \<^verbatim>\<open>IndexError\<close> on the empty list. The
  first \<^verbatim>\<open>try\<close> block has no \<^verbatim>\<open>finally\<close> clause, and \<^verbatim>\<open>process_options\<close> is called
  outside of both blocks.
\<close>

definition main :: "environment \<Rightarrow> string list \<Rightarrow> unit run" where
  "main env args =
     then_run (emit Banner)
       (case args of
          [] \<Rightarrow> raise IndexError
        | script # user_args \<Rightarrow>
            (let root_dir = (if script_dir env script = [] then ''.'' else script_dir env script);
                 owtf_pid = getpid env
             in then_run
                  (try_except (initialise env root_dir owtf_pid)
                     (\<lambda>e. if e = DatabaseNotRunning then Some (raise (SystemExit (- 1))) else None))
                  (and_then (process_options env user_args) (\<lambda>cfg.
                   then_run (emit (PublishCliOptions cfg))
                  (then_run
                     (emit (LogWarning
                        (str_format ''OWTF Version: {0}, Release: {1} ''
                           [owtf_version env, owtf_release env])))
                  (try_finally (run_engine env cfg)
                     (emit (CleanTempStorageDirs owtf_pid))))))))"

subsection \<open>Example inputs\<close>

text \<open>
  A namespace as the parser returns it for \<^verbatim>\<open>owtf\<close> called with the group \<^verbatim>\<open>web\<close>,
  the type \<^verbatim>\<open>quiet\<close> and nothing else; the examples below change single fields.
\<close>

definition plain_arguments :: arguments where
  "plain_arguments =
     \<lparr> arg_PluginGroup = PStr ''web'', arg_PluginType = PStr ''quiet'',
       arg_CustomProfile = None, arg_OnlyPlugins = None, arg_ExceptPlugins = None,
       arg_TOR_mode = None, arg_OutboundProxy = None, arg_InboundProxy = None,
       arg_Targets = None, arg_list_plugins = PNone, arg_ForceOverwrite = PBool False,
       arg_Interactive = PStr ''yes'', arg_Simulation = PBool False,
       arg_OutboundProxyAuth = PNone, arg_RPort = PNone,
       arg_PortWaves = PStr ''10,100,1000'', arg_ProxyMode = PBool True,
       arg_nowebui = PBool False \<rparr>"

text \<open>A plugin registry with four plugins in three groups.\<close>

definition example_registry :: "(string \<times> string) list" where
  "example_registry =
     [(''sqli'', ''web''), (''xss'', ''web''), (''ftp'', ''network''),
      (''exploit'', ''auxiliary'')]"

text \<open>
  An environment in which the parser returns the namespace \<open>a\<close>, two files exist
  (a scope file with two targets and a file of blank lines), every initialisation call
  succeeds and the engine does real work.
\<close>

definition example_env :: "arguments \<Rightarrow> environment" where
  "example_env a =
     \<lparr> get_all_plugin_groups = [''web'', ''network'', ''auxiliary''],
       get_all_plugin_types = [''active'', ''passive'', ''semi_passive'', ''grep''],
       get_groups_for_plugins =
         (\<lambda>plugins. remdups (List.map_filter (map_of example_registry) plugins)),
       get_types_for_plugin_group =
         (\<lambda>g. if g = PStr ''web'' then [''active'', ''passive'', ''semi_passive'', ''grep'']
              else [''active'']),
       parse_options = (\<lambda>user_args valid_groups valid_types. Inr a),
       path_exists = (\<lambda>p. p = ''/tmp/scope.txt'' \<or> p = ''/tmp/blank.txt''),
       path_isfile = (\<lambda>p. p = ''/tmp/scope.txt'' \<or> p = ''/tmp/blank.txt''),
       open_read =
         (\<lambda>p. if p = ''/tmp/scope.txt''
              then Some (''a.com'' @ [CHR 0x0A, CHR 0x0A] @ ''b.com'' @ [CHR 0x0A])
              else if p = ''/tmp/blank.txt'' then Some ([CHR 0x0A] @ ''  '' @ [CHR 0x0A])
              else None),
       sys_argv = [''owtf''],
       script_dir = (\<lambda>p. ''/usr/bin''),
       getpid = 4242,
       init_raises = (\<lambda>c. None),
       core_start = (\<lambda>cfg. Inr True),
       core_finish = (\<lambda>n. None),
       owtf_version = ''2.4'',
       owtf_release = ''Wicky'' \<rparr>"

text \<open>The dictionary returned for \<open>plain_arguments\<close> in the example environment.\<close>

definition plain_configuration :: resolved_configuration where
  "plain_configuration =
     \<lparr> list_plugins = PNone, Force_Overwrite = PBool False, Interactive = True,
       Simulation = PBool False, Scope = [], argv = [''owtf''],
       PluginType = PList [''passive'', ''semi_passive''], OnlyPlugins = PNone,
       ExceptPlugins = PNone, InboundProxy = PNone, OutboundProxy = PNone,
       OutboundProxyAuth = PNone, Profiles = [], PluginGroup = PStr ''web'', RPort = PNone,
       PortWaves = PStr ''10,100,1000'', ProxyMode = PBool True, TOR_mode = PNone,
       nowebui = PBool False, Args = PStr '''' \<rparr>"


section \<open>Properties\<close>

subsection \<open>Running code\<close>

lemma ret_apply: "ret v t = (Inr v, t)"
  by (simp add: ret_def)

lemma raise_apply: "raise e t = (Inl e, t)"
  by (simp add: raise_def)

lemma usage_apply: "usage msg t = (Inl (UsageError msg), t)"
  by (simp add: usage_def raise_def)

lemma emit_apply: "emit ev t = (Inr (), t @ [ev])"
  by (simp add: emit_def)

lemma and_then_Inl: "m t = (Inl e, t') \<Longrightarrow> and_then m f t = (Inl e, t')"
  by (simp add: and_then_def)

lemma and_then_Inr: "m t = (Inr v, t') \<Longrightarrow> and_then m f t = f v t'"
  by (simp add: and_then_def)

lemma then_run_emit: "then_run (emit ev) k t = k (t @ [ev])"
  by (simp add: then_run_def and_then_def emit_def)

lemma appends_ret: "appends (ret v)"
  by (simp add: appends_def outcome_def events_def ret_def)

lemma appends_raise: "appends (raise e)"
  by (simp add: appends_def outcome_def events_def raise_def)

lemma appends_usage: "appends (usage msg)"
  by (simp add: usage_def appends_raise)

lemma appends_emit: "appends (emit ev)"
  by (simp add: appends_def outcome_def events_def emit_def)

lemma appendsD: "appends m \<Longrightarrow> m t = (outcome m, t @ events m)"
  by (simp add: appends_def)

lemma and_then_appends:
  assumes "appends m"
  shows "and_then m f t =
     (case outcome m of Inl e \<Rightarrow> (Inl e, t @ events m) | Inr v \<Rightarrow> f v (t @ events m))"
  using appendsD [OF assms, of t] by (simp add: and_then_def split: sum.splits)

lemma appends_and_then:
  assumes m: "appends m" and f: "\<And>v. appends (f v)"
  shows "appends (and_then m f)"
proof (cases "outcome m")
  case (Inl e)
  then have "and_then m f t = (Inl e, t @ events m)" for t
    by (simp add: and_then_appends [OF m])
  then show ?thesis
    by (simp add: appends_def outcome_def [of "and_then m f"] events_def [of "and_then m f"])
next
  case (Inr v)
  have "and_then m f t = (outcome (f v), t @ events m @ events (f v))" for t
    using appendsD [OF f [of v], of "t @ events m"]
    by (simp add: and_then_appends [OF m] Inr)
  then show ?thesis
    by (simp add: appends_def outcome_def [of "and_then m f"] events_def [of "and_then m f"])
qed

lemma appends_then_run: "appends m \<Longrightarrow> appends k \<Longrightarrow> appends (then_run m k)"
  by (simp add: then_run_def appends_and_then)

lemma appends_case_prod: "(\<And>a b. appends (f a b)) \<Longrightarrow> appends (case p of (a, b) \<Rightarrow> f a b)"
  by (cases p) simp

lemma appends_get_plugins_from_arg: "appends (get_plugins_from_arg env a)"
  by (simp add: get_plugins_from_arg_def Let_def appends_usage appends_ret)

lemma appends_parse_arguments: "appends (parse_arguments env user_args)"
  by (simp add: parse_arguments_def Let_def appends_usage appends_ret appends_raise
      split: sum.splits exn.splits)

lemma appends_custom_profiles_loop: "appends (custom_profiles_loop env ps acc)"
  by (induction ps arbitrary: acc) (simp_all add: Let_def appends_usage appends_ret)

lemma appends_custom_profiles: "appends (custom_profiles env arg)"
  by (simp add: custom_profiles_def appends_custom_profiles_loop appends_ret split: option.splits)

lemma appends_only_plugins: "appends (only_plugins env arg)"
  by (auto simp: only_plugins_def appends_get_plugins_from_arg appends_ret appends_usage
      appends_emit intro!: appends_and_then appends_then_run split: list.splits)

lemma appends_except_plugins: "appends (except_plugins env arg)"
  by (auto simp: except_plugins_def appends_get_plugins_from_arg appends_ret
      intro!: appends_and_then)

lemma appends_tor_mode: "appends (tor_mode arg)"
  by (auto simp: tor_mode_def Let_def appends_ret appends_usage appends_emit appends_raise
      intro!: appends_then_run)

lemma appends_outbound_proxy: "appends (outbound_proxy ob)"
  by (auto simp: outbound_proxy_def Let_def appends_ret appends_usage
      intro!: appends_and_then split: option.splits)

lemma appends_inbound_proxy: "appends (inbound_proxy arg)"
  by (auto simp: inbound_proxy_def Let_def appends_ret appends_usage split: option.splits)

lemma appends_resolve_scope: "appends (resolve_scope env arg pg)"
  by (auto simp: resolve_scope_def Let_def appends_ret appends_usage appends_emit appends_raise
      intro!: appends_then_run split: option.splits)

lemma appends_check_targets: "appends (check_targets scope)"
  by (induction scope) (simp_all add: appends_ret appends_usage appends_raise)

lemma appends_process_options: "appends (process_options env user_args)"
  unfolding process_options_def
  by (intro appends_and_then appends_parse_arguments appends_custom_profiles
      appends_only_plugins appends_except_plugins appends_tor_mode appends_outbound_proxy
      appends_inbound_proxy appends_resolve_scope appends_check_targets appends_ret
      appends_case_prod)

subsection \<open>Strings\<close>

lemma py_split_not_Nil: "py_split sep s \<noteq> []"
  by (induction s) (simp_all add: Let_def)





lemma py_format_plain: "CHR ''{'' \<notin> set template \<Longrightarrow> py_format template args rest = template"
  by (induction template arbitrary: rest) auto

lemma str_format_plain: "CHR ''{'' \<notin> set template \<Longrightarrow> str_format template args = template"
  by (simp add: str_format_def py_format_plain)




text \<open>The separators that \<^verbatim>\<open>strip\<close> drops and \<^verbatim>\<open>int\<close> refuses.\<close>

lemma py_int_separator:
  "py_int (''9050'' @ [CHR 0x1C]) = None \<and> py_int ([CHR 0x1F] @ ''8080'') = None
   \<and> py_strip (''9050'' @ [CHR 0x1C]) = ''9050''
   \<and> py_int ('' 9050'' @ [CHR 0x0A]) = Some 9050"
  by (simp add: py_int_def int_strip_def int_isspace_def py_strip_def py_isspace_def
      is_digit_def digit_val_def)

lemma scope_file_targets_eq:
  "scope_file_targets content =
     filter (\<lambda>l. l \<noteq> []) (map py_strip (py_split [CHR 0x0A] content))"
proof -
  have "foldl (\<lambda>new_scope target.
              let CleanTarget = py_strip target
              in if CleanTarget = [] then new_scope else new_scope @ [CleanTarget]) acc xs
        = acc @ filter (\<lambda>l. l \<noteq> []) (map py_strip xs)" for acc xs
    by (induction xs arbitrary: acc) (simp_all add: Let_def)
  then show ?thesis by (simp add: scope_file_targets_def)
qed

subsection \<open>The outcome of \<^verbatim>\<open>process_options\<close>, block by block\<close>


lemma outcome_ret: "outcome (ret v) = Inr v"
  by (simp add: outcome_def ret_def)

lemma outcome_and_then:
  assumes m: "appends m" and f: "\<And>v. appends (f v)"
  shows "outcome (and_then m f) = (case outcome m of Inl e \<Rightarrow> Inl e | Inr v \<Rightarrow> outcome (f v))"
proof (cases "outcome m")
  case (Inl e)
  then show ?thesis
    by (simp add: outcome_def [of "and_then m f"] and_then_appends [OF m])
next
  case (Inr v)
  then show ?thesis
    using appendsD [OF f [of v], of "events m"]
    by (simp add: outcome_def [of "and_then m f"] and_then_appends [OF m])
qed

lemma outcome_case_prod:
  "outcome (case p of (a, b) \<Rightarrow> f a b) = (case p of (a, b) \<Rightarrow> outcome (f a b))"
  by (cases p) simp

lemmas appends_steps =
  appends_and_then appends_parse_arguments appends_custom_profiles
  appends_only_plugins appends_except_plugins appends_tor_mode appends_outbound_proxy
  appends_inbound_proxy appends_resolve_scope appends_check_targets appends_ret
  appends_case_prod

lemma outcome_process_options:
  "outcome (process_options env user_args) =
    (case outcome (parse_arguments env user_args) of Inl e \<Rightarrow> Inl e | Inr arg \<Rightarrow>
     case outcome (custom_profiles env arg) of Inl e \<Rightarrow> Inl e | Inr profiles \<Rightarrow>
     case outcome (only_plugins env arg) of Inl e \<Rightarrow> Inl e | Inr (only, plugin_group) \<Rightarrow>
     case outcome (except_plugins env arg) of Inl e \<Rightarrow> Inl e | Inr except \<Rightarrow>
     case outcome (tor_mode arg) of Inl e \<Rightarrow> Inl e | Inr (tor, outbound) \<Rightarrow>
     case outcome (outbound_proxy outbound) of Inl e \<Rightarrow> Inl e | Inr outbound_fields \<Rightarrow>
     case outcome (inbound_proxy arg) of Inl e \<Rightarrow> Inl e | Inr inbound_fields \<Rightarrow>
     case outcome (resolve_scope env arg plugin_group) of Inl e \<Rightarrow> Inl e | Inr scope \<Rightarrow>
     case outcome (check_targets scope) of Inl e \<Rightarrow> Inl e | Inr _ \<Rightarrow>
       Inr \<lparr> list_plugins = arg_list_plugins arg,
             Force_Overwrite = arg_ForceOverwrite arg,
             Interactive = (arg_Interactive arg = PStr ''yes''),
             Simulation = arg_Simulation arg,
             Scope = (if plugin_group = PStr ''auxiliary'' then [''auxiliary''] else scope),
             argv = sys_argv env,
             PluginType = plugin_type env arg plugin_group,
             OnlyPlugins = only,
             ExceptPlugins = except,
             InboundProxy = inbound_fields,
             OutboundProxy = outbound_fields,
             OutboundProxyAuth = arg_OutboundProxyAuth arg,
             Profiles = profiles,
             PluginGroup = plugin_group,
             RPort = arg_RPort arg,
             PortWaves = arg_PortWaves arg,
             ProxyMode = arg_ProxyMode arg,
             TOR_mode = tor,
             nowebui = arg_nowebui arg,
             Args = (if plugin_group = PStr ''auxiliary'' then PList scope else PStr '''')
           \<rparr>)"
  unfolding process_options_def
  by (simp add: outcome_and_then outcome_case_prod outcome_ret appends_steps
      cong: sum.case_cong prod.case_cong)

lemma outcome_parse_arguments:
  "outcome (parse_arguments env user_args) = Inr arg \<longleftrightarrow>
   parse_options env user_args (get_all_plugin_groups env)
     (get_all_plugin_types env @ [''all'', ''quiet'']) = Inr arg"
  by (auto simp: parse_arguments_def outcome_def Let_def ret_apply raise_apply usage_apply
      split: sum.splits exn.splits)

lemma process_options_returns:
  assumes "outcome (process_options env user_args) = Inr cfg"
  shows "\<exists>arg only pg scope.
    outcome (parse_arguments env user_args) = Inr arg \<and>
    outcome (only_plugins env arg) = Inr (only, pg) \<and>
    outcome (resolve_scope env arg pg) = Inr scope \<and>
    outcome (check_targets scope) = Inr () \<and>
    PluginGroup cfg = pg \<and>
    Scope cfg = (if pg = PStr ''auxiliary'' then [''auxiliary''] else scope) \<and>
    Args cfg = (if pg = PStr ''auxiliary'' then PList scope else PStr '''')"
  using assms unfolding outcome_process_options
  by (auto split: sum.splits prod.splits)

text \<open>The definitions that evaluate a run on a concrete input.\<close>

lemmas run_defs =
  process_options_def parse_arguments_def custom_profiles_def only_plugins_def
  except_plugins_def tor_mode_def outbound_proxy_def inbound_proxy_def resolve_scope_def
  plugin_type_def get_plugins_from_arg_def scope_file_targets_def
  and_then_def then_run_def ret_def raise_def emit_def usage_def
  given_def opt_val_def Let_def

lemmas example_defs =
  example_env_def plain_arguments_def example_registry_def plain_configuration_def

subsection \<open>Runs of \<^verbatim>\<open>process_options\<close> that complete\<close>

text \<open>
  When every block completes, \<^verbatim>\<open>process_options\<close> returns, and the dictionary is made of
  the results of the blocks; conversely a dictionary that is returned comes from blocks
  that have all completed.
\<close>

lemma process_options_completes:
  assumes "parse_options env user_args (get_all_plugin_groups env)
             (get_all_plugin_types env @ [''all'', ''quiet'']) = Inr arg"
    and "outcome (custom_profiles env arg) = Inr profiles"
    and "outcome (only_plugins env arg) = Inr (only, plugin_group)"
    and "outcome (except_plugins env arg) = Inr excluded"
    and "outcome (tor_mode arg) = Inr (tor, outbound)"
    and "outcome (outbound_proxy outbound) = Inr outbound_fields"
    and "outcome (inbound_proxy arg) = Inr inbound_fields"
    and "outcome (resolve_scope env arg plugin_group) = Inr scope"
    and "outcome (check_targets scope) = Inr ()"
  shows "process_options env user_args t =
    (Inr \<lparr> list_plugins = arg_list_plugins arg,
             Force_Overwrite = arg_ForceOverwrite arg,
             Interactive = (arg_Interactive arg = PStr ''yes''),
             Simulation = arg_Simulation arg,
             Scope = (if plugin_group = PStr ''auxiliary'' then [''auxiliary''] else scope),
             argv = sys_argv env,
             PluginType = plugin_type env arg plugin_group,
             OnlyPlugins = only,
             ExceptPlugins = excluded,
             InboundProxy = inbound_fields,
             OutboundProxy = outbound_fields,
             OutboundProxyAuth = arg_OutboundProxyAuth arg,
             Profiles = profiles,
             PluginGroup = plugin_group,
             RPort = arg_RPort arg,
             PortWaves = arg_PortWaves arg,
             ProxyMode = arg_ProxyMode arg,
             TOR_mode = tor,
             nowebui = arg_nowebui arg,
             Args = (if plugin_group = PStr ''auxiliary'' then PList scope else PStr '''')
           \<rparr>,
     t @ events (process_options env user_args))"
proof -
  have "outcome (parse_arguments env user_args) = Inr arg"
    using assms(1) by (simp add: outcome_parse_arguments)
  then show ?thesis
    using assms(2-9) appendsD [OF appends_process_options, of env user_args t]
    by (simp add: outcome_process_options)
qed



text \<open>
  The plugin group after lines 80 to 98: the group of the namespace when no only-plugins
  list is given, and the one group of the list when there is one.
\<close>

lemma only_plugins_not_given:
  "\<not> given (arg_OnlyPlugins arg) \<Longrightarrow>
   outcome (only_plugins env arg) = Inr (opt_val (arg_OnlyPlugins arg), arg_PluginGroup arg)"
  by (simp add: only_plugins_def outcome_ret)

lemma only_plugins_one_group:
  assumes "arg_OnlyPlugins arg = Some ids" "ids \<noteq> []"
    and "get_groups_for_plugins env (py_split '','' ids) = [g]"
  shows "outcome (only_plugins env arg) = Inr (PList (py_split '','' ids), PStr g)"
  using assms
  by (simp add: only_plugins_def get_plugins_from_arg_def given_def opt_val_def
      outcome_def and_then_def then_run_def ret_def emit_def Let_def)

subsection \<open>Resolving twice\<close>









subsection \<open>The auxiliary group and the field \<^verbatim>\<open>Args\<close>\<close>

text \<open>
  Claim C9. When the plugin group after the only-plugins block (the group given, or the
  one derived from the list) is not \<^verbatim>\<open>auxiliary\<close> and every block completes,
  \<^verbatim>\<open>process_options\<close> returns a configuration with that group whose field \<^verbatim>\<open>Args\<close> is
  the empty string, a string and not a list, and whose field \<^verbatim>\<open>Scope\<close> is the resolved
  scope.
\<close>

theorem args_empty_string_unless_auxiliary:
  assumes parsed: "parse_options env user_args (get_all_plugin_groups env)
                     (get_all_plugin_types env @ [''all'', ''quiet'']) = Inr arg"
    and profiles: "outcome (custom_profiles env arg) = Inr profiles"
    and group: "outcome (only_plugins env arg) = Inr (only, plugin_group)"
    and other: "plugin_group \<noteq> PStr ''auxiliary''"
    and excluded: "outcome (except_plugins env arg) = Inr excluded"
    and tor: "outcome (tor_mode arg) = Inr (tor, outbound)"
    and outbound: "outcome (outbound_proxy outbound) = Inr outbound_fields"
    and inbound: "outcome (inbound_proxy arg) = Inr inbound_fields"
    and scope: "outcome (resolve_scope env arg plugin_group) = Inr scope"
    and checked: "outcome (check_targets scope) = Inr ()"
  shows "\<exists>cfg t'. process_options env user_args t = (Inr cfg, t') \<and>
           PluginGroup cfg = plugin_group \<and>
           Args cfg = PStr '''' \<and>
           Scope cfg = scope"
  using process_options_completes
    [OF parsed profiles group excluded tor outbound inbound scope checked, of t] other
  by simp

theorem args_empty_string_unless_auxiliary_witness:
  "(\<exists>cfg t'. process_options
        (example_env (plain_arguments\<lparr>arg_Targets := Some [''a.com'', ''b.com'']\<rparr>))
        [''a.com'', ''b.com''] [] = (Inr cfg, t') \<and>
      PluginGroup cfg = PStr ''web'' \<and>
      Args cfg = PStr '''' \<and>
      Scope cfg = [''a.com'', ''b.com''])
   \<and> (\<exists>cfg t'. process_options
        (example_env (plain_arguments\<lparr>arg_OnlyPlugins := Some ''ftp'',
           arg_Targets := Some [''10.0.0.1'']\<rparr>))
        [''-o'', ''ftp'', ''10.0.0.1''] [] = (Inr cfg, t') \<and>
      PluginGroup cfg = PStr ''network'' \<and>
      Args cfg = PStr '''' \<and>
      Scope cfg = [''10.0.0.1''])"
proof -
  have overridden: "outcome (only_plugins
       (example_env (plain_arguments\<lparr>arg_OnlyPlugins := Some ''ftp'',
           arg_Targets := Some [''10.0.0.1'']\<rparr>))
       (plain_arguments\<lparr>arg_OnlyPlugins := Some ''ftp'', arg_Targets := Some [''10.0.0.1'']\<rparr>))
      = Inr (PList [''ftp''], PStr ''network'')"
    by (simp add: only_plugins_one_group [where ids = "''ftp''" and g = "''network''"]
        example_defs)
  show ?thesis
    using
      args_empty_string_unless_auxiliary
        [of "example_env (plain_arguments\<lparr>arg_Targets := Some [''a.com'', ''b.com'']\<rparr>)"
            "[''a.com'', ''b.com'']"
            "plain_arguments\<lparr>arg_Targets := Some [''a.com'', ''b.com'']\<rparr>"
            "[]" PNone "PStr ''web''" PNone PNone None PNone PNone "[''a.com'', ''b.com'']" "[]"]
      args_empty_string_unless_auxiliary
        [of "example_env (plain_arguments\<lparr>arg_OnlyPlugins := Some ''ftp'',
               arg_Targets := Some [''10.0.0.1'']\<rparr>)"
            "[''-o'', ''ftp'', ''10.0.0.1'']"
            "plain_arguments\<lparr>arg_OnlyPlugins := Some ''ftp'', arg_Targets := Some [''10.0.0.1'']\<rparr>"
            "[]" "PList [''ftp'']" "PStr ''network''" PNone PNone None PNone PNone
            "[''10.0.0.1'']" "[]", OF _ _ overridden]
    by (simp add: example_defs custom_profiles_def only_plugins_def except_plugins_def
        tor_mode_def outbound_proxy_def inbound_proxy_def resolve_scope_def
        given_def opt_val_def outcome_ret Let_def)
qed

text \<open>
  Claim C6. When the plugin group after the only-plugins block (the group given, or the
  one derived from the list) is \<^verbatim>\<open>auxiliary\<close> and every block completes,
  \<^verbatim>\<open>process_options\<close> returns a configuration whose field \<^verbatim>\<open>Args\<close> is the resolved
  scope, as a list, and whose field \<^verbatim>\<open>Scope\<close> is the one-element list
  \<^verbatim>\<open>['auxiliary']\<close>.
\<close>

theorem auxiliary_scope_moved_to_args:
  assumes parsed: "parse_options env user_args (get_all_plugin_groups env)
                     (get_all_plugin_types env @ [''all'', ''quiet'']) = Inr arg"
    and profiles: "outcome (custom_profiles env arg) = Inr profiles"
    and auxiliary: "outcome (only_plugins env arg) = Inr (only, PStr ''auxiliary'')"
    and excluded: "outcome (except_plugins env arg) = Inr excluded"
    and tor: "outcome (tor_mode arg) = Inr (tor, outbound)"
    and outbound: "outcome (outbound_proxy outbound) = Inr outbound_fields"
    and inbound: "outcome (inbound_proxy arg) = Inr inbound_fields"
    and scope: "outcome (resolve_scope env arg (PStr ''auxiliary'')) = Inr scope"
    and checked: "outcome (check_targets scope) = Inr ()"
  shows "\<exists>cfg t'. process_options env user_args t = (Inr cfg, t') \<and>
           PluginGroup cfg = PStr ''auxiliary'' \<and>
           Scope cfg = [''auxiliary''] \<and>
           Args cfg = PList scope"
  using process_options_completes
    [OF parsed profiles auxiliary excluded tor outbound inbound scope checked, of t]
  by simp

theorem auxiliary_scope_moved_to_args_witness:
  "(\<exists>cfg t'. process_options
        (example_env (plain_arguments\<lparr>arg_OnlyPlugins := Some ''exploit'',
           arg_Targets := Some [''RHOST=10.0.0.1'', ''RPORT=21'']\<rparr>))
        [''-o'', ''exploit'', ''RHOST=10.0.0.1'', ''RPORT=21''] [] = (Inr cfg, t') \<and>
      PluginGroup cfg = PStr ''auxiliary'' \<and>
      Scope cfg = [''auxiliary''] \<and>
      Args cfg = PList [''RHOST=10.0.0.1'', ''RPORT=21''])
   \<and> (\<exists>cfg t'. process_options
        (example_env (plain_arguments\<lparr>arg_PluginGroup := PStr ''auxiliary'', arg_Targets := None\<rparr>))
        [''-g'', ''auxiliary''] [] = (Inr cfg, t') \<and>
      PluginGroup cfg = PStr ''auxiliary'' \<and>
      Scope cfg = [''auxiliary''] \<and>
      Args cfg = PList [])"
proof -
  have overridden: "outcome (only_plugins
       (example_env (plain_arguments\<lparr>arg_OnlyPlugins := Some ''exploit'',
           arg_Targets := Some [''RHOST=10.0.0.1'', ''RPORT=21'']\<rparr>))
       (plain_arguments\<lparr>arg_OnlyPlugins := Some ''exploit'',
           arg_Targets := Some [''RHOST=10.0.0.1'', ''RPORT=21'']\<rparr>))
      = Inr (PList [''exploit''], PStr ''auxiliary'')"
    by (simp add: only_plugins_one_group [where ids = "''exploit''" and g = "''auxiliary''"]
        example_defs)
  show ?thesis
    using
      auxiliary_scope_moved_to_args
        [of "example_env (plain_arguments\<lparr>arg_OnlyPlugins := Some ''exploit'',
               arg_Targets := Some [''RHOST=10.0.0.1'', ''RPORT=21'']\<rparr>)"
            "[''-o'', ''exploit'', ''RHOST=10.0.0.1'', ''RPORT=21'']"
            "plain_arguments\<lparr>arg_OnlyPlugins := Some ''exploit'',
               arg_Targets := Some [''RHOST=10.0.0.1'', ''RPORT=21'']\<rparr>"
            "[]" "PList [''exploit'']" PNone PNone None PNone PNone
            "[''RHOST=10.0.0.1'', ''RPORT=21'']" "[]", OF _ _ overridden]
      auxiliary_scope_moved_to_args
        [of "example_env (plain_arguments\<lparr>arg_PluginGroup := PStr ''auxiliary'', arg_Targets := None\<rparr>)"
            "[''-g'', ''auxiliary'']"
            "plain_arguments\<lparr>arg_PluginGroup := PStr ''auxiliary'', arg_Targets := None\<rparr>"
            "[]" PNone PNone PNone None PNone PNone "[]" "[]"]
    by (simp add: example_defs custom_profiles_def only_plugins_def except_plugins_def
        tor_mode_def outbound_proxy_def inbound_proxy_def resolve_scope_def
        given_def opt_val_def outcome_ret Let_def)
qed

subsection \<open>Plugin lists that belong to several groups\<close>

lemmas step_defs =
  outcome_def and_then_def then_run_def ret_def raise_def emit_def usage_def Let_def

lemma custom_profiles_loop_fails:
  "outcome (custom_profiles_loop env ps acc) = Inl e \<Longrightarrow> \<exists>msg. e = UsageError msg"
proof (induction ps arbitrary: acc)
  case Nil
  then show ?case by (simp add: step_defs)
next
  case (Cons p ps)
  show ?case
  proof (cases "length (py_split '':'' p) \<noteq> 2 \<or> \<not> path_exists env (py_split '':'' p ! 1)")
    case True
    with Cons.prems show ?thesis by (auto simp: step_defs)
  next
    case False
    with Cons.prems Cons.IH show ?thesis by (simp add: Let_def)
  qed
qed

lemma custom_profiles_fails:
  "outcome (custom_profiles env arg) = Inl e \<Longrightarrow> \<exists>msg. e = UsageError msg"
  unfolding custom_profiles_def
  by (auto simp: outcome_ret dest: custom_profiles_loop_fails split: option.splits if_splits)

lemma get_plugins_from_arg_several:
  "1 < length (get_groups_for_plugins env (py_split '','' ids)) \<Longrightarrow>
   get_plugins_from_arg env ids t =
     (Inl (UsageError (''The plugins specified belong to several plugin groups: ''
                         @ [CHR 0x27] @ ''%s'' @ [CHR 0x27])), t)"
  by (simp add: get_plugins_from_arg_def Let_def usage_apply str_format_plain)

lemma only_plugins_fails:
  "outcome (only_plugins env arg) = Inl e \<Longrightarrow> \<exists>msg. e = UsageError msg"
  unfolding only_plugins_def get_plugins_from_arg_def
  by (auto simp: step_defs split: if_splits list.splits)

lemma only_plugins_several:
  assumes "arg_OnlyPlugins arg = Some ids" "ids \<noteq> []"
    and "1 < length (get_groups_for_plugins env (py_split '','' ids))"
  shows "\<exists>msg. outcome (only_plugins env arg) = Inl (UsageError msg)"
  using assms get_plugins_from_arg_several [OF assms(3)]
  by (simp add: only_plugins_def given_def opt_val_def outcome_def and_then_def)

lemma except_plugins_several:
  assumes "arg_ExceptPlugins arg = Some ids" "ids \<noteq> []"
    and "1 < length (get_groups_for_plugins env (py_split '','' ids))"
  shows "\<exists>msg. outcome (except_plugins env arg) = Inl (UsageError msg)"
  using assms get_plugins_from_arg_several [OF assms(3)]
  by (simp add: except_plugins_def given_def opt_val_def outcome_def and_then_def)

text \<open>
  Claim C3. When the only-plugins list or the except-plugins list is supplied and its
  identifiers belong to two or more distinct groups, \<^verbatim>\<open>process_options\<close> ends in the
  usage error and returns no configuration: no group is chosen among them.
\<close>

theorem several_groups_usage_error:
  assumes parsed: "parse_options env user_args (get_all_plugin_groups env)
                     (get_all_plugin_types env @ [''all'', ''quiet'']) = Inr arg"
    and supplied: "arg_OnlyPlugins arg = Some ids \<or> arg_ExceptPlugins arg = Some ids"
    and nonempty: "ids \<noteq> []"
    and several: "2 \<le> card (set (get_groups_for_plugins env (py_split '','' ids)))"
  shows "\<exists>msg t'. process_options env user_args t = (Inl (UsageError msg), t')"
proof -
  have len: "1 < length (get_groups_for_plugins env (py_split '','' ids))"
    using several card_length [of "get_groups_for_plugins env (py_split '','' ids)"] by linarith
  have arg: "outcome (parse_arguments env user_args) = Inr arg"
    using parsed by (simp add: outcome_parse_arguments)
  have "\<exists>msg. outcome (process_options env user_args) = Inl (UsageError msg)"
  proof (cases "outcome (custom_profiles env arg)")
    case (Inl e)
    with custom_profiles_fails [OF Inl] arg show ?thesis
      by (auto simp: outcome_process_options)
  next
    case profiles: (Inr profiles)
    show ?thesis
    proof (cases "outcome (only_plugins env arg)")
      case (Inl e)
      with only_plugins_fails [OF Inl] arg profiles show ?thesis
        by (auto simp: outcome_process_options)
    next
      case only: (Inr r)
      with only_plugins_several [OF _ nonempty len] supplied
      have "arg_ExceptPlugins arg = Some ids" by fastforce
      from except_plugins_several [OF this nonempty len] arg profiles only show ?thesis
        by (auto simp: outcome_process_options split: prod.splits)
    qed
  qed
  then show ?thesis
    using appendsD [OF appends_process_options, of env user_args t] by auto
qed

theorem several_groups_usage_error_witness:
  "\<exists>msg t'. process_options
      (example_env (plain_arguments\<lparr>arg_ExceptPlugins := Some ''sqli,xss,ftp''\<rparr>))
      [''-e'', ''sqli,xss,ftp''] [] = (Inl (UsageError msg), t')"
  using several_groups_usage_error
    [of "example_env (plain_arguments\<lparr>arg_ExceptPlugins := Some ''sqli,xss,ftp''\<rparr>)"
        "[''-e'', ''sqli,xss,ftp'']"
        "plain_arguments\<lparr>arg_ExceptPlugins := Some ''sqli,xss,ftp''\<rparr>"
        "''sqli,xss,ftp''" "[]"]
  by (simp add: example_defs)


subsection \<open>The scope file\<close>

text \<open>
  Claim C4. With exactly one positional argument that names an existing file, the scope
  becomes the lines of the file's content, cut at the newline, each stripped of
  whitespace, the blank ones dropped, in the order of the file; when no line remains the
  scope block ends in the usage error and no configuration is returned. A configuration
  that is returned carries these lines as \<^verbatim>\<open>Scope\<close>, or as \<^verbatim>\<open>Args\<close> for the
  auxiliary group.
\<close>

theorem scope_file_replaces_scope:
  assumes parsed: "parse_options env user_args (get_all_plugin_groups env)
                     (get_all_plugin_types env @ [''all'', ''quiet'']) = Inr arg"
    and one: "arg_Targets arg = Some [path]"
    and is_file: "path_isfile env path"
    and content: "open_read env path = Some content"
  shows "(let lines = filter (\<lambda>l. l \<noteq> []) (map py_strip (py_split [CHR 0x0A] content))
          in (lines \<noteq> [] \<longrightarrow> outcome (resolve_scope env arg plugin_group) = Inr lines)
           \<and> (lines = [] \<longrightarrow>
                 outcome (resolve_scope env arg plugin_group)
                   = Inl (UsageError ''Please provide a scope file (1 target x line)'')
                 \<and> (\<forall>cfg. outcome (process_options env user_args) \<noteq> Inr cfg))
           \<and> (\<forall>cfg. outcome (process_options env user_args) = Inr cfg \<longrightarrow>
                 (if PluginGroup cfg = PStr ''auxiliary''
                  then Scope cfg = [''auxiliary''] \<and> Args cfg = PList lines
                  else Scope cfg = lines)))"
proof -
  define lines where "lines = filter (\<lambda>l. l \<noteq> []) (map py_strip (py_split [CHR 0x0A] content))"
  have scope: "outcome (resolve_scope env arg pg) =
      (if lines = [] then Inl (UsageError ''Please provide a scope file (1 target x line)'')
       else Inr lines)" for pg
    using one is_file content
    by (simp add: resolve_scope_def step_defs scope_file_targets_eq lines_def)
  have arg: "outcome (parse_arguments env user_args) = Inr arg"
    using parsed by (simp add: outcome_parse_arguments)
  have returns: "lines \<noteq> [] \<and>
      (if PluginGroup cfg = PStr ''auxiliary''
       then Scope cfg = [''auxiliary''] \<and> Args cfg = PList lines else Scope cfg = lines)"
    if "outcome (process_options env user_args) = Inr cfg" for cfg
    using process_options_returns [OF that] arg scope by (auto split: if_splits)
  show ?thesis
    unfolding Let_def lines_def [symmetric]
    using scope returns by auto
qed

theorem scope_file_replaces_scope_witness:
  "outcome (resolve_scope
      (example_env (plain_arguments\<lparr>arg_Targets := Some [''/tmp/scope.txt'']\<rparr>))
      (plain_arguments\<lparr>arg_Targets := Some [''/tmp/scope.txt'']\<rparr>) (PStr ''web''))
    = Inr [''a.com'', ''b.com'']
   \<and> outcome (resolve_scope
      (example_env (plain_arguments\<lparr>arg_Targets := Some [''/tmp/blank.txt'']\<rparr>))
      (plain_arguments\<lparr>arg_Targets := Some [''/tmp/blank.txt'']\<rparr>) (PStr ''web''))
    = Inl (UsageError ''Please provide a scope file (1 target x line)'')"
  using scope_file_replaces_scope
    [of "example_env (plain_arguments\<lparr>arg_Targets := Some [''/tmp/scope.txt'']\<rparr>)"
        "[''/tmp/scope.txt'']"
        "plain_arguments\<lparr>arg_Targets := Some [''/tmp/scope.txt'']\<rparr>"
        "''/tmp/scope.txt''"
        "''a.com'' @ [CHR 0x0A, CHR 0x0A] @ ''b.com'' @ [CHR 0x0A]"
        "PStr ''web''"]
    scope_file_replaces_scope
    [of "example_env (plain_arguments\<lparr>arg_Targets := Some [''/tmp/blank.txt'']\<rparr>)"
        "[''/tmp/blank.txt'']"
        "plain_arguments\<lparr>arg_Targets := Some [''/tmp/blank.txt'']\<rparr>"
        "''/tmp/blank.txt''"
        "[CHR 0x0A] @ ''  '' @ [CHR 0x0A]"
        "PStr ''web''"]
  by (simp add: example_defs py_strip_def py_isspace_def Let_def)

subsection \<open>The help of the TOR mode\<close>

lemma tor_mode_help:
  assumes "arg_TOR_mode arg = Some spec" and "py_split '':'' spec ! 0 = ''help''"
  shows "tor_mode arg t = (Inl (SystemExit 0), t @ [MsgConfigureTor])"
proof -
  have "spec \<noteq> []" using assms(2) by auto
  then show ?thesis
    using assms by (simp add: tor_mode_def given_def opt_val_def then_run_emit raise_apply)
qed

text \<open>
  Claim C10. When the first colon-delimited field of the TOR-mode string is \<^verbatim>\<open>help\<close>,
  whatever the number of fields, the TOR block prints the guidance and exits with status
  0; so does \<^verbatim>\<open>process_options\<close> whenever the blocks before the TOR block (profiles,
  only-plugins, except-plugins) complete, with the guidance as its last event: neither
  the field count is checked nor any later block run.
\<close>

theorem tor_help_short_circuits:
  assumes tor: "arg_TOR_mode arg = Some spec"
    and first_field: "py_split '':'' spec ! 0 = ''help''"
    and parsed: "parse_options env user_args (get_all_plugin_groups env)
                     (get_all_plugin_types env @ [''all'', ''quiet'']) = Inr arg"
    and profiles: "outcome (custom_profiles env arg) = Inr profiles"
    and only: "outcome (only_plugins env arg) = Inr only_and_group"
    and except: "outcome (except_plugins env arg) = Inr excluded"
  shows "tor_mode arg t = (Inl (SystemExit 0), t @ [MsgConfigureTor]) \<and>
         (\<exists>t'. process_options env user_args t = (Inl (SystemExit 0), t' @ [MsgConfigureTor]))"
proof -
  have step: "tor_mode arg t0 = (Inl (SystemExit 0), t0 @ [MsgConfigureTor])" for t0
    using tor first_field by (rule tor_mode_help)
  have arg: "parse_arguments env user_args t0 = (Inr arg, t0)" for t0
    using parsed by (simp add: parse_arguments_def ret_apply)
  have p: "custom_profiles env arg t0 = (Inr profiles, t0 @ events (custom_profiles env arg))" for t0
    using appendsD [OF appends_custom_profiles, of env arg t0] profiles by simp
  have ob: "only_plugins env arg t0 = (Inr only_and_group, t0 @ events (only_plugins env arg))"
    for t0
    using appendsD [OF appends_only_plugins, of env arg t0] only by simp
  have e: "except_plugins env arg t0 = (Inr excluded, t0 @ events (except_plugins env arg))" for t0
    using appendsD [OF appends_except_plugins, of env arg t0] except by simp
  have "process_options env user_args t =
      (Inl (SystemExit 0),
       (t @ events (custom_profiles env arg) @ events (only_plugins env arg)
          @ events (except_plugins env arg)) @ [MsgConfigureTor])"
    unfolding process_options_def
    by (simp add: and_then_Inr [OF arg] and_then_Inr [OF p] and_then_Inr [OF ob]
        and_then_Inr [OF e] and_then_Inl [OF step] split: prod.splits)
  with step show ?thesis by blast
qed

theorem tor_help_short_circuits_witness:
  "tor_mode (plain_arguments\<lparr>arg_TOR_mode := Some ''help:a:b:c:d''\<rparr>) []
     = (Inl (SystemExit 0), [] @ [MsgConfigureTor]) \<and>
   (\<exists>t'. process_options (example_env (plain_arguments\<lparr>arg_TOR_mode := Some ''help:a:b:c:d''\<rparr>))
            [''--tor'', ''help:a:b:c:d''] []
          = (Inl (SystemExit 0), t' @ [MsgConfigureTor]))"
  using tor_help_short_circuits
    [of "plain_arguments\<lparr>arg_TOR_mode := Some ''help:a:b:c:d''\<rparr>" "''help:a:b:c:d''"
        "example_env (plain_arguments\<lparr>arg_TOR_mode := Some ''help:a:b:c:d''\<rparr>)"
        "[''--tor'', ''help:a:b:c:d'']" "[]" "(PNone, PStr ''web'')" "PNone" "[]"]
  by (simp add: example_defs custom_profiles_def only_plugins_def except_plugins_def
      given_def opt_val_def outcome_ret)

subsection \<open>The check of the targets\<close>

lemma check_targets_first_empty:
  assumes "\<forall>x\<in>set pre. x \<noteq> [] \<and> x ! 0 \<noteq> CHR ''-''"
  shows "check_targets (pre @ [] # post) t = (Inl IndexError, t)"
  using assms by (induction pre) (simp_all add: raise_apply)

lemma check_targets_nonempty:
  assumes "\<forall>x\<in>set scope. x \<noteq> []"
  shows "check_targets scope t = (Inr (), t) \<or>
         (\<exists>x\<in>set scope. check_targets scope t = (Inl (UsageError (''Invalid Target: '' @ x)), t))"
  using assms by (induction scope) (auto simp: ret_apply usage_apply)

text \<open>
  Claim C8, as amended. The check reads the first character of each target without
  testing for the empty string, and stops at the first target that is empty or begins
  with a dash. When an empty target comes before any target beginning with a dash, the
  check raises \<^verbatim>\<open>IndexError\<close>, and so does \<^verbatim>\<open>process_options\<close> whenever the blocks
  before the check complete with such a scope. When every target is non-empty the check
  either passes or ends in the usage error for a target of the scope.
\<close>

theorem check_targets_empty_target:
  assumes clean: "\<forall>x\<in>set pre. x \<noteq> [] \<and> x ! 0 \<noteq> CHR ''-''"
  shows "check_targets (pre @ [] # post) t = (Inl IndexError, t)
       \<and> (parse_options env user_args (get_all_plugin_groups env)
              (get_all_plugin_types env @ [''all'', ''quiet'']) = Inr arg
          \<and> outcome (custom_profiles env arg) = Inr profiles
          \<and> outcome (only_plugins env arg) = Inr (only, plugin_group)
          \<and> outcome (except_plugins env arg) = Inr excluded
          \<and> outcome (tor_mode arg) = Inr (tor, outbound)
          \<and> outcome (outbound_proxy outbound) = Inr outbound_fields
          \<and> outcome (inbound_proxy arg) = Inr inbound_fields
          \<and> outcome (resolve_scope env arg plugin_group) = Inr (pre @ [] # post)
          \<longrightarrow> outcome (process_options env user_args) = Inl IndexError)
       \<and> ((\<forall>x\<in>set scope. x \<noteq> []) \<longrightarrow>
            check_targets scope t = (Inr (), t) \<or>
            (\<exists>x\<in>set scope.
               check_targets scope t = (Inl (UsageError (''Invalid Target: '' @ x)), t)))"
proof -
  have first: "check_targets (pre @ [] # post) t0 = (Inl IndexError, t0)" for t0
    using clean by (rule check_targets_first_empty)
  then have "outcome (check_targets (pre @ [] # post)) = Inl IndexError"
    by (simp add: outcome_def)
  then show ?thesis
    using first check_targets_nonempty [of scope t]
    by (auto simp: outcome_process_options outcome_parse_arguments [symmetric])
qed

theorem check_targets_empty_target_witness:
  "check_targets ([''a.com''] @ [] # [''-b'']) [] = (Inl IndexError, [])
   \<and> outcome (process_options
        (example_env (plain_arguments\<lparr>arg_Targets := Some [''a.com'', [], ''-b'']\<rparr>))
        [''a.com'', [], ''-b'']) = Inl IndexError
   \<and> check_targets [''a.com'', ''-b''] [] = (Inl (UsageError ''Invalid Target: -b''), [])"
  using check_targets_empty_target
    [of "[''a.com'']"
        "[''-b'']" "[]"
        "example_env (plain_arguments\<lparr>arg_Targets := Some [''a.com'', [], ''-b'']\<rparr>)"
        "[''a.com'', [], ''-b'']"
        "plain_arguments\<lparr>arg_Targets := Some [''a.com'', [], ''-b'']\<rparr>"
        "[]" PNone "PStr ''web''" PNone PNone None PNone PNone "[''a.com'', ''-b'']"]
  by (simp add: example_defs custom_profiles_def only_plugins_def except_plugins_def
      tor_mode_def outbound_proxy_def inbound_proxy_def resolve_scope_def
      given_def opt_val_def outcome_ret Let_def usage_apply)

text \<open>
  The claim as stated fails: in the scope \<^verbatim>\<open>['-a', '']\<close> the target \<^verbatim>\<open>-a\<close> is refused
  with the usage error before the empty target is reached.
\<close>

theorem check_targets_empty_target_counterexample:
  "process_options (example_env (plain_arguments\<lparr>arg_Targets := Some [''-a'', '''']\<rparr>))
     [''--'', ''-a'', ''''] []
   = (Inl (UsageError ''Invalid Target: -a''), [])"
  by (simp add: run_defs example_defs)


subsection \<open>The outbound proxy\<close>







text \<open>
  A port followed by one of the separators that \<^verbatim>\<open>int\<close> does not drop is refused, for
  both proxies.
\<close>

lemma outbound_proxy_separator_refused:
  "outbound_proxy (Some (''socks://127.0.0.1:9050'' @ [CHR 0x1C])) []
     = (Inl (UsageError ''Invalid port provided for Outbound Proxy''), [])
   \<and> inbound_proxy (plain_arguments\<lparr>arg_InboundProxy := Some ([CHR 0x1F] @ ''8080'')\<rparr>) []
     = (Inl (UsageError ''Invalid port for Inbound Proxy''), [])"
  by (simp add: outbound_proxy_def inbound_proxy_def given_def opt_val_def Let_def
      and_then_def ret_def usage_apply plain_arguments_def
      py_int_def int_strip_def int_isspace_def is_digit_def)




subsection \<open>The outbound proxy derived from the TOR mode\<close>

text \<open>
  Claim C2. Line 124 calls \<^verbatim>\<open>format\<close> on a template written with \<^verbatim>\<open>%s\<close>, which
  \<^verbatim>\<open>format\<close> leaves as it is. For the TOR-mode string \<^verbatim>\<open>::u:p:f\<close> the derived outbound
  proxy is the text \<^verbatim>\<open>socks://%s:%s\<close>, whose last field is no integer:
  \<^verbatim>\<open>process_options\<close> ends in the usage error. The string \<^verbatim>\<open>socks://127.0.0.1:9050\<close>
  that the claim expects is accepted when given directly.
\<close>

theorem tor_mode_outbound_not_formatted:
  "tor_mode (plain_arguments\<lparr>arg_TOR_mode := Some ''::u:p:f''\<rparr>) []
     = (Inr (PList ['''', '''', ''u'', ''p'', ''f''], Some ''socks://%s:%s''), [])
   \<and> process_options (example_env (plain_arguments\<lparr>arg_TOR_mode := Some ''::u:p:f''\<rparr>))
       [''--tor'', ''::u:p:f''] []
     = (Inl (UsageError ''Invalid port provided for Outbound Proxy''), [])
   \<and> outbound_proxy (Some ''socks://127.0.0.1:9050'') []
     = (Inr (PList [''socks'', ''127.0.0.1'', ''9050'']), [])"
  by (simp add: run_defs example_defs str_format_def py_int_def int_strip_def int_isspace_def
      is_digit_def digit_val_def)


subsection \<open>The cleanup of the temporary storage\<close>

lemma try_finally_emit:
  "try_finally body (emit ev) t = (fst (body t), snd (body t) @ [ev])"
  by (simp add: try_finally_def emit_def split: prod.splits)

lemma init_steps_succeed:
  "(\<forall>c. init_raises env c = None) \<Longrightarrow> init_steps env cs t = (Inr (), t @ map Init cs)"
  by (induction cs arbitrary: t)
     (simp_all add: ret_apply init_step_def then_run_def and_then_def emit_def)

lemma try_except_returns: "body t = (Inr v, t') \<Longrightarrow> try_except body handler t = (Inr v, t')"
  by (simp add: try_except_def)

text \<open>
  Claim C1, as amended. When every initialisation call succeeds and
  \<^verbatim>\<open>process_options\<close> returns a configuration, the last event of \<^verbatim>\<open>main\<close> is the cleanup
  of the temporary storage for the process identifier captured at the start, however the
  engine ends: normally, by an interrupt, by an exit, or by any other exception of
  \<^verbatim>\<open>core.start\<close> or \<^verbatim>\<open>core.finish\<close>.
\<close>

theorem cleanup_last_once_engine_is_reached:
  assumes init: "\<forall>c. init_raises env c = None"
    and resolved: "outcome (process_options env user_args) = Inr cfg"
  shows "\<exists>r t'. main env (script # user_args) t = (r, t' @ [CleanTempStorageDirs (getpid env)])"
proof -
  have i: "try_except (initialise env root (getpid env)) h t0
             = (Inr (), t0 @ map Init
                 [EnsureDefaultSession, LoadFrameworkConfigFile root (getpid env),
                  LoadConfigDbFile, LoadResourcesFromFile, LoadMappingsFromFile,
                  LoadTestGroups ''web'', LoadTestGroups ''net'', LoadTestGroups ''aux'',
                  LoadPlugins])" for root h t0
    unfolding initialise_def using init_steps_succeed [OF init] by (rule try_except_returns)
  have p: "process_options env user_args t0
             = (Inr cfg, t0 @ events (process_options env user_args))" for t0
    using appendsD [OF appends_process_options, of env user_args t0] resolved by simp
  show ?thesis
    unfolding main_def
    by (simp add: then_run_emit Let_def then_run_def [of "try_except _ _"]
        and_then_Inr [OF i] and_then_Inr [OF p] try_finally_emit)
qed

theorem cleanup_last_once_engine_is_reached_witness:
  "\<exists>r t'. main ((example_env (plain_arguments\<lparr>arg_Targets := Some [''a.com'']\<rparr>))
                   \<lparr>core_start := (\<lambda>cfg. Inl (KeyboardInterrupt '''')),
                    core_finish := (\<lambda>n. Some (OtherError ''disk full''))\<rparr>)
              (''owtf'' # [''a.com'']) []
          = (r, t' @ [CleanTempStorageDirs
                (getpid ((example_env (plain_arguments\<lparr>arg_Targets := Some [''a.com'']\<rparr>))
                   \<lparr>core_start := (\<lambda>cfg. Inl (KeyboardInterrupt '''')),
                    core_finish := (\<lambda>n. Some (OtherError ''disk full''))\<rparr>))])"
proof -
  have resolved: "outcome (process_options
      ((example_env (plain_arguments\<lparr>arg_Targets := Some [''a.com'']\<rparr>))
                   \<lparr>core_start := (\<lambda>cfg. Inl (KeyboardInterrupt '''')),
                    core_finish := (\<lambda>n. Some (OtherError ''disk full''))\<rparr>) [''a.com''])
     = Inr (plain_configuration\<lparr>Scope := [''a.com'']\<rparr>)"
    by (simp add: outcome_def run_defs example_defs)
  have init: "\<forall>c. init_raises ((example_env (plain_arguments\<lparr>arg_Targets := Some [''a.com'']\<rparr>))
                   \<lparr>core_start := (\<lambda>cfg. Inl (KeyboardInterrupt '''')),
                    core_finish := (\<lambda>n. Some (OtherError ''disk full''))\<rparr>) c = None"
    by (simp add: example_env_def)
  show ?thesis
    using cleanup_last_once_engine_is_reached [OF init resolved, of "''owtf''" "[]"] .
qed

text \<open>The definitions that evaluate a run of \<^verbatim>\<open>main\<close>.\<close>

lemmas main_defs =
  main_def initialise_def init_step_def engine_start_def engine_finish_def run_engine_def
  try_except_def try_finally_def str_format_def

text \<open>
  The claim as stated fails: when the session cannot be ensured because the database is
  not running, \<^verbatim>\<open>main\<close> exits with status -1 after two events, and when a target
  begins with a dash it ends in the usage error after the initialisation; neither trace
  holds a cleanup.
\<close>

theorem cleanup_skipped_counterexample:
  "main ((example_env plain_arguments)
           \<lparr>init_raises := (\<lambda>c. if c = EnsureDefaultSession then Some DatabaseNotRunning else None)\<rparr>)
     [''owtf'', ''a.com''] []
   = (Inl (SystemExit (- 1)), [Banner, Init EnsureDefaultSession])
   \<and> main (example_env (plain_arguments\<lparr>arg_Targets := Some [''-x'']\<rparr>)) [''owtf'', ''--'', ''-x''] []
   = (Inl (UsageError ''Invalid Target: -x''),
      [Banner, Init EnsureDefaultSession, Init (LoadFrameworkConfigFile ''/usr/bin'' 4242),
       Init LoadConfigDbFile, Init LoadResourcesFromFile, Init LoadMappingsFromFile,
       Init (LoadTestGroups ''web''), Init (LoadTestGroups ''net''),
       Init (LoadTestGroups ''aux''), Init LoadPlugins])"
  by (simp add: main_defs run_defs example_defs)

end
